theory Spec2Isabelle
  imports Main "HOL-Library.Sublist"
begin

section \<open>JavaScript values used by the component\<close>

text \<open>
  The component \<open>App\<close> is a function of the values its hooks return. A value that can be
  thrown (or with which a promise can reject) is either an instance of \<open>Error\<close>, with its
  message, or any other value. For a value that is not an \<open>Error\<close> the model keeps what
  the code can observe of it: \<open>Nullish\<close> is \<open>null\<close> or \<open>undefined\<close>, whose properties
  cannot be read; \<open>NonError (Some m)\<close> is a value with the string \<open>m\<close> under its
  \<open>message\<close> property; \<open>NonError None\<close> is a value with nothing under \<open>message\<close>
  (a primitive, an object without the property). The message of an \<open>Error\<close> is taken to
  be a string, as the constructor makes it.
\<close>

datatype thrown = Error string | Nullish | NonError "string option"

text \<open>\<open>String.prototype.includes\<close>: the search string occurs as a contiguous part.\<close>

fun string_includes :: "string \<Rightarrow> string \<Rightarrow> bool" where
  "string_includes [] searchString = (searchString = [])"
| "string_includes (c # cs) searchString =
     (prefix searchString (c # cs) \<or> string_includes cs searchString)"

text \<open>Truthiness of a value of type \<open>string | undefined\<close>: \<open>undefined\<close> and \<open>''\<close> are falsy.\<close>

definition truthy :: "string option \<Rightarrow> bool" where
  "truthy v = (case v of None \<Rightarrow> False | Some s \<Rightarrow> s \<noteq> [])"

section \<open>The chain transport and the signing client\<close>

text \<open>
  Modelled from the spec: the type of a gas quote belongs to the transport library, which
  is not part of the repository. The spec's data model gives it as either
  \<open>{maxFeePerGas, maxPriorityFeePerGas}\<close> or \<open>{gasPrice}\<close>; big integers are \<open>int\<close>.
\<close>

datatype fee_values =
    FeeValuesEIP1559 (maxFeePerGas: int) (maxPriorityFeePerGas: int)
  | FeeValuesLegacy (gasPrice: int)

text \<open>The property names of a quote, and the test \<open>'maxFeePerGas' in feesPerGas\<close>.\<close>

fun fee_fields :: "fee_values \<Rightarrow> string list" where
  "fee_fields (FeeValuesEIP1559 mf mp) = [''maxFeePerGas'', ''maxPriorityFeePerGas'']"
| "fee_fields (FeeValuesLegacy gp) = [''gasPrice'']"

definition has_field :: "string \<Rightarrow> fee_values \<Rightarrow> bool" where
  "has_field k q = (k \<in> set (fee_fields q))"

record abi_entry =
  inputs :: "(string \<times> string) list"
  entry_name :: string
  outputs :: "(string \<times> string) list"
  stateMutability :: string
  entry_type :: string

definition APPROVE_ABI :: "abi_entry list" where
  "APPROVE_ABI =
     [\<lparr>inputs = [(''spender'', ''address''), (''amount'', ''uint256'')],
       entry_name = ''approve'',
       outputs = [],
       stateMutability = ''nonpayable'',
       entry_type = ''function''\<rparr>]"

text \<open>
  The contract call descriptor \<open>params\<close>; \<open>args\<close> is the pair (spender, amount). The
  request given to \<open>writeContract\<close> spreads the descriptor and the quote and adds \<open>gas\<close>.
\<close>

record call_params =
  abi :: "abi_entry list"
  account :: string
  functionName :: string
  address :: string
  args :: "string \<times> int"

record write_request = call_params +
  fees :: fee_values
  gas :: int

record chain_info =
  chain_id :: int

text \<open>
  The network is outside the program. A client is modelled by how each of its calls
  settles: with a thrown value (\<open>Inl\<close>) or with a result (\<open>Inr\<close>). Every call is
  assumed to settle.
\<close>

record public_client =
  client_chain :: "chain_info option"
  estimateFeesPerGas :: "thrown + fee_values"
  getGasPrice :: "thrown + int"
  estimateContractGas :: "call_params \<Rightarrow> thrown + int"

record wallet_client =
  writeContract :: "write_request \<Rightarrow> thrown + string"

text \<open>The network calls a run makes, in order.\<close>

datatype call =
    EstimateContractGas call_params
  | EstimateFeesPerGas
  | GetGasPrice
  | WriteContract write_request

text \<open>
  What one render of \<open>App\<close> reads from its hooks: \<open>account.address\<close>, the public client,
  the wallet client and the text field's state. \<open>typeErrorText\<close> is the message the
  JavaScript engine gives the \<open>TypeError\<close> raised on reading the named property of
  \<open>undefined\<close> or \<open>null\<close>; the text is the engine's own.
\<close>

record env =
  account_address :: "string option"
  publicClient :: "public_client option"
  walletClient :: "wallet_client option"
  tokenAddress :: string
  typeErrorText :: "string \<Rightarrow> string"

record ui_state =
  txHash :: "string option"
  errorMessage :: "string option"

section \<open>The router address table\<close>

definition UNISWAP_ADDRESSES :: "int \<rightharpoonup> string" where
  "UNISWAP_ADDRESSES = map_of
     [(42161, ''0x68b3465833fb72A70ecDF485E0e4C7bD8665Fc45''),
      (100, ''0x1b02dA8Cb0d097eB8D57A175b88c7D8b47997506''),
      (1313161554, ''0x2CB45Edb4517d5947aFdE3BEAbF95A582506858B'')]"

text \<open>
  \<open>publicClient.chain?.id || 0\<close>: an absent chain gives \<open>undefined\<close>, and \<open>undefined\<close>
  and \<open>0\<close> are both replaced by \<open>0\<close>.
\<close>

definition active_chain_key :: "public_client \<Rightarrow> int" where
  "active_chain_key pc =
     (case client_chain pc of
        None \<Rightarrow> 0
      | Some ch \<Rightarrow> if chain_id ch = 0 then 0 else chain_id ch)"

text \<open>
  The memoised \<open>uniswapAddress\<close>. Its callback reads \<open>publicClient.chain\<close> without a
  guard, so with no public client the render itself raises a \<open>TypeError\<close>.
\<close>

definition uniswapAddress :: "env \<Rightarrow> thrown + string option" where
  "uniswapAddress e =
     (case publicClient e of
        None \<Rightarrow> Inl (Error (typeErrorText e ''chain''))
      | Some pc \<Rightarrow> Inr (UNISWAP_ADDRESSES (active_chain_key pc)))"

section \<open>requestGasParams\<close>

record gas_params =
  feesPerGas :: fee_values
  is1559 :: bool

text \<open>
  \<open>(error as Error).message.includes('1559')\<close> on a caught value: a boolean, or the
  \<open>TypeError\<close> raised when \<open>message\<close> cannot be read (\<open>null\<close>, \<open>undefined\<close>) or
  holds \<open>undefined\<close>, so that \<open>includes\<close> cannot be read from it.
\<close>

definition message_includes :: "env \<Rightarrow> thrown \<Rightarrow> string \<Rightarrow> thrown + bool" where
  "message_includes e err s =
     (case err of
        Error m \<Rightarrow> Inr (string_includes m s)
      | Nullish \<Rightarrow> Inl (Error (typeErrorText e ''message''))
      | NonError (Some m) \<Rightarrow> Inr (string_includes m s)
      | NonError None \<Rightarrow> Inl (Error (typeErrorText e ''includes'')))"

definition requestGasParams :: "env \<Rightarrow> (thrown + gas_params) \<times> call list" where
  "requestGasParams e =
     (case publicClient e of
        None \<Rightarrow> (Inl (Error ''Public client is required''), [])
      | Some pc \<Rightarrow>
          (case estimateFeesPerGas pc of
             Inr fpg \<Rightarrow>
               (Inr \<lparr>feesPerGas = fpg, is1559 = has_field ''maxFeePerGas'' fpg\<rparr>,
                [EstimateFeesPerGas])
           | Inl err \<Rightarrow>
               (case message_includes e err ''1559'' of
                  Inl te \<Rightarrow> (Inl te, [EstimateFeesPerGas])
                | Inr True \<Rightarrow>
                    (case getGasPrice pc of
                       Inl err' \<Rightarrow> (Inl err', [EstimateFeesPerGas, GetGasPrice])
                     | Inr gp \<Rightarrow>
                         (Inr \<lparr>feesPerGas = FeeValuesLegacy gp, is1559 = False\<rparr>,
                          [EstimateFeesPerGas, GetGasPrice]))
                | Inr False \<Rightarrow> (Inl err, [EstimateFeesPerGas]))))"

section \<open>onHandleApprove\<close>

text \<open>\<open>BigInt('0xff...ff')\<close> with sixty-four digits \<open>f\<close>.\<close>

definition maxAmount :: int where
  "maxAmount = 0xffffffffffffffffffffffffffffffffffffffffffffffffffffffffffffffff"

definition approve_params :: "string \<Rightarrow> string \<Rightarrow> string \<Rightarrow> call_params" where
  "approve_params addr token router =
     \<lparr>abi = APPROVE_ABI,
      account = addr,
      functionName = ''approve'',
      address = token,
      args = (router, maxAmount)\<rparr>"

definition write_request_of :: "call_params \<Rightarrow> fee_values \<Rightarrow> int \<Rightarrow> write_request" where
  "write_request_of p q gasLimit =
     \<lparr>abi = abi p, account = account p, functionName = functionName p,
      address = address p, args = args p, fees = q, gas = gasLimit\<rparr>"

text \<open>
  The body of the \<open>try\<close> block after the two resets, with the callee \<open>requestGasParams\<close>
  as the parameter \<open>rgp\<close>: the thrown value or the transaction hash, and the network
  calls made. \<open>ua\<close> is the value of \<open>uniswapAddress\<close> the handler closes over.
\<close>

definition approve_steps_with ::
  "(env \<Rightarrow> (thrown + gas_params) \<times> call list) \<Rightarrow> string option \<Rightarrow> env \<Rightarrow>
     (thrown + string) \<times> call list" where
  "approve_steps_with rgp ua e =
     (case account_address e of
        None \<Rightarrow> (Inl (Error ''Wallet not Connected''), [])
      | Some addr \<Rightarrow>
     if addr = [] then (Inl (Error ''Wallet not Connected''), []) else
     (case publicClient e of
        None \<Rightarrow> (Inl (Error ''Wallet not Connected''), [])
      | Some pc \<Rightarrow>
     (case ua of
        None \<Rightarrow> (Inl (Error ''Target contract is required''), [])
      | Some router \<Rightarrow>
     if router = [] then (Inl (Error ''Target contract is required''), []) else
     if tokenAddress e = [] then (Inl (Error ''Token is required''), []) else
     (let params = approve_params addr (tokenAddress e) router in
      case estimateContractGas pc params of
        Inl err \<Rightarrow> (Inl err, [EstimateContractGas params])
      | Inr gasLimit \<Rightarrow>
     (case walletClient e of
        None \<Rightarrow> (Inl (Error ''Wallet client not available''), [EstimateContractGas params])
      | Some wc \<Rightarrow>
     (case rgp e of
        (Inl err, cs) \<Rightarrow> (Inl err, EstimateContractGas params # cs)
      | (Inr gp, cs) \<Rightarrow>
     (let req = write_request_of params (feesPerGas gp) gasLimit in
      case writeContract wc req of
        Inl err \<Rightarrow> (Inl err, EstimateContractGas params # cs @ [WriteContract req])
      | Inr hash \<Rightarrow> (Inr hash, EstimateContractGas params # cs @ [WriteContract req]))))))))"

definition approve_steps :: "string option \<Rightarrow> env \<Rightarrow> (thrown + string) \<times> call list" where
  "approve_steps = approve_steps_with requestGasParams"

text \<open>
  The two resets that open the \<open>try\<close> block: \<open>setErrorMessage(null)\<close>, then
  \<open>setTxHash(null)\<close>. They run as soon as the button is clicked, before any \<open>await\<close>.
\<close>

definition begin_approve :: "ui_state \<Rightarrow> ui_state" where
  "begin_approve s =
     (let s1 = s\<lparr>errorMessage := None\<rparr>
      in s1\<lparr>txHash := None\<rparr>)"

text \<open>
  The argument of \<open>setErrorMessage\<close> in the \<open>catch\<close> block,
  \<open>error instanceof Error ? error.message : 'Unknown error'\<close>. Reading \<open>message\<close> from
  \<open>null\<close> or \<open>undefined\<close> would raise a \<open>TypeError\<close>, and an error raised inside a
  \<open>catch\<close> block leaves the function; here the read is made only after the
  \<open>instanceof\<close> test has succeeded.
\<close>

definition instanceof_Error :: "thrown \<Rightarrow> bool" where
  "instanceof_Error err = (case err of Error m \<Rightarrow> True | Nullish \<Rightarrow> False | NonError v \<Rightarrow> False)"

definition read_message :: "env \<Rightarrow> thrown \<Rightarrow> thrown + string option" where
  "read_message e err =
     (case err of
        Error m \<Rightarrow> Inr (Some m)
      | Nullish \<Rightarrow> Inl (Error (typeErrorText e ''message''))
      | NonError v \<Rightarrow> Inr v)"

definition caught_message :: "env \<Rightarrow> thrown \<Rightarrow> thrown + string option" where
  "caught_message e err =
     (if instanceof_Error err then read_message e err else Inr (Some ''Unknown error''))"

text \<open>
  The end of an invocation, given how the body of the \<open>try\<close> block ended: with a hash,
  \<open>setTxHash(hash)\<close>; with a thrown value, the \<open>catch\<close> block. The result says how the
  promise of \<open>onHandleApprove\<close> settles: it rejects only if the \<open>catch\<close> block itself
  raises. Console output is not modelled.
\<close>

definition finish_approve ::
  "env \<Rightarrow> thrown + string \<Rightarrow> ui_state \<Rightarrow> (thrown + unit) \<times> ui_state" where
  "finish_approve e outcome s =
     (case outcome of
        Inr hash \<Rightarrow> (Inr (), s\<lparr>txHash := Some hash\<rparr>)
      | Inl err \<Rightarrow>
          (case caught_message e err of
             Inl te \<Rightarrow> (Inl te, s)
           | Inr v \<Rightarrow> (Inr (), s\<lparr>errorMessage := v\<rparr>)))"

text \<open>
  One invocation of \<open>onHandleApprove\<close> that no other invocation overlaps, from the UI
  state it starts in: how the promise settles, the UI state it leaves and the network
  calls it made.
\<close>

record approve_run =
  settled :: "thrown + unit"
  ui :: ui_state
  calls :: "call list"

definition onHandleApprove_with ::
  "(env \<Rightarrow> (thrown + gas_params) \<times> call list) \<Rightarrow> string option \<Rightarrow> env \<Rightarrow> ui_state \<Rightarrow>
     approve_run" where
  "onHandleApprove_with rgp ua e s =
     (case approve_steps_with rgp ua e of
        (outcome, cs) \<Rightarrow>
          (case finish_approve e outcome (begin_approve s) of
             (res, s') \<Rightarrow> \<lparr>settled = res, ui = s', calls = cs\<rparr>))"

definition onHandleApprove :: "string option \<Rightarrow> env \<Rightarrow> ui_state \<Rightarrow> approve_run" where
  "onHandleApprove = onHandleApprove_with requestGasParams"

text \<open>
  A render of \<open>App\<close> followed by a click on the Approve button: the render evaluates
  \<open>uniswapAddress\<close>, and the handler it creates closes over that value. A render that
  raises creates no handler. The button is shown only while \<open>account.status\<close> is
  \<open>'connected'\<close>; the model leaves that condition out and so covers every click the
  page allows.
\<close>

definition App_approve :: "env \<Rightarrow> ui_state \<Rightarrow> thrown + approve_run" where
  "App_approve e s =
     (case uniswapAddress e of
        Inl err \<Rightarrow> Inl err
      | Inr ua \<Rightarrow> Inr (onHandleApprove ua e s))"

text \<open>
  Two clicks on Approve whose invocations overlap. Nothing disables the button while an
  invocation is under way, and an invocation gives up control at each \<open>await\<close>, that
  is at each network call. Here both invocations reach an \<open>await\<close>; the second click
  comes while the first invocation is waiting, the first invocation ends next and the
  second ends last. The state updates take effect in that order. \<open>None\<close> when one of
  the two invocations ends at a guard, without waiting.
\<close>

definition overlapping_clicks ::
  "string option \<Rightarrow> env \<Rightarrow> string option \<Rightarrow> env \<Rightarrow> ui_state \<Rightarrow> ui_state option" where
  "overlapping_clicks ua1 e1 ua2 e2 s =
     (if snd (approve_steps ua1 e1) = [] \<or> snd (approve_steps ua2 e2) = [] then None
      else
        (let s1 = begin_approve s;
             s2 = begin_approve s1;
             s3 = snd (finish_approve e1 (fst (approve_steps ua1 e1)) s2);
             s4 = snd (finish_approve e2 (fst (approve_steps ua2 e2)) s3)
         in Some s4))"

text \<open>The text shown for a caught value: its message if it is an \<open>Error\<close>.\<close>

fun thrown_message :: "thrown \<Rightarrow> string" where
  "thrown_message (Error m) = m"
| "thrown_message Nullish = ''Unknown error''"
| "thrown_message (NonError v) = ''Unknown error''"

section \<open>Sample inputs\<close>

text \<open>
  A connected account on chain 42161 with a fee-market quote, and variations of it: a
  chain whose fee estimation reports missing EIP-1559 support, one whose fee estimation
  times out, one that quotes a legacy price, one the router table does not know, a client
  without a chain, a gas estimation that reverts, and wallets that reject.
\<close>

definition example_owner :: string where
  "example_owner = ''0x1111111111111111111111111111111111111111''"

definition example_token :: string where
  "example_token = ''0xAAAAAAAAAAAAAAAAAAAAAAAAAAAAAAAAAAAAAAAA''"

definition example_router :: string where
  "example_router = ''0x68b3465833fb72A70ecDF485E0e4C7bD8665Fc45''"

definition example_public :: public_client where
  "example_public =
     \<lparr>client_chain = Some \<lparr>chain_id = 42161\<rparr>,
      estimateFeesPerGas = Inr (FeeValuesEIP1559 100 2),
      getGasPrice = Inr 90,
      estimateContractGas = (\<lambda>p. Inr 46000)\<rparr>"

definition example_wallet :: wallet_client where
  "example_wallet = \<lparr>writeContract = (\<lambda>r. Inr ''0xabc'')\<rparr>"

definition example_env :: env where
  "example_env =
     \<lparr>account_address = Some example_owner,
      publicClient = Some example_public,
      walletClient = Some example_wallet,
      tokenAddress = example_token,
      typeErrorText = (\<lambda>p. ''Cannot read properties of undefined'')\<rparr>"

definition stale_ui :: ui_state where
  "stale_ui = \<lparr>txHash = Some ''0xold'', errorMessage = Some ''old error''\<rparr>"

definition example_request :: write_request where
  "example_request =
     write_request_of (approve_params example_owner example_token example_router)
       (FeeValuesEIP1559 100 2) 46000"

definition legacy_public :: public_client where
  "legacy_public =
     example_public\<lparr>estimateFeesPerGas := Inl (Error ''Chain does not support EIP-1559 fees.'')\<rparr>"

definition failing_public :: public_client where
  "failing_public = example_public\<lparr>estimateFeesPerGas := Inl (Error ''request timed out'')\<rparr>"

definition legacy_quote_public :: public_client where
  "legacy_quote_public = example_public\<lparr>estimateFeesPerGas := Inr (FeeValuesLegacy 77)\<rparr>"

definition mainnet_public :: public_client where
  "mainnet_public = example_public\<lparr>client_chain := Some \<lparr>chain_id = 1\<rparr>\<rparr>"

definition chainless_public :: public_client where
  "chainless_public = example_public\<lparr>client_chain := None\<rparr>"

definition reverting_public :: public_client where
  "reverting_public =
     example_public\<lparr>estimateContractGas := (\<lambda>p. Inl (Error ''execution reverted''))\<rparr>"

definition rejecting_wallet :: wallet_client where
  "rejecting_wallet = \<lparr>writeContract = (\<lambda>r. Inl (Error ''User rejected the request.''))\<rparr>"

definition odd_wallet :: wallet_client where
  "odd_wallet = \<lparr>writeContract = (\<lambda>r. Inl (NonError None))\<rparr>"

text \<open>
  A chain on which the gas estimation succeeds for the sample token and reverts for any
  other, and a second token.
\<close>

definition picky_public :: public_client where
  "picky_public =
     example_public\<lparr>estimateContractGas :=
       (\<lambda>p. if address p = example_token then Inr 46000
            else Inl (Error ''execution reverted''))\<rparr>"

definition other_token :: string where
  "other_token = ''0xBBBBBBBBBBBBBBBBBBBBBBBBBBBBBBBBBBBBBBBB''"

text \<open>The run that stops at a guard or a failed call: nothing recorded but the message.\<close>

definition failed_run :: "string \<Rightarrow> call list \<Rightarrow> approve_run" where
  "failed_run m cs =
     \<lparr>settled = Inr (), ui = \<lparr>txHash = None, errorMessage = Some m\<rparr>, calls = cs\<rparr>"

text \<open>
  A resolver that differs from \<open>requestGasParams\<close> exactly where there is no public
  client: there it returns a quote and claims a network call instead of raising.
\<close>

definition unguarded_resolver :: "env \<Rightarrow> (thrown + gas_params) \<times> call list" where
  "unguarded_resolver e =
     (if publicClient e = None
      then (Inr \<lparr>feesPerGas = FeeValuesLegacy 0, is1559 = False\<rparr>, [GetGasPrice])
      else requestGasParams e)"

section \<open>Basic facts\<close>

text \<open>The \<open>catch\<close> block never raises, and shows the message of an \<open>Error\<close>.\<close>

lemma caught_message_eq: "caught_message e err = Inr (Some (thrown_message err))"
  by (cases err) (simp_all add: caught_message_def instanceof_Error_def read_message_def)

lemma finish_approve_hash: "finish_approve e (Inr h) s = (Inr (), s\<lparr>txHash := Some h\<rparr>)"
  by (simp add: finish_approve_def)

lemma finish_approve_thrown:
  "finish_approve e (Inl err) s = (Inr (), s\<lparr>errorMessage := Some (thrown_message err)\<rparr>)"
  by (simp add: finish_approve_def caught_message_eq)

lemma onHandleApprove_with_unfold:
  "onHandleApprove_with rgp ua e s =
     (let s1 = s\<lparr>errorMessage := None\<rparr>;
          s2 = s1\<lparr>txHash := None\<rparr>
      in case approve_steps_with rgp ua e of
           (Inr hash, cs) \<Rightarrow> \<lparr>settled = Inr (), ui = s2\<lparr>txHash := Some hash\<rparr>, calls = cs\<rparr>
         | (Inl err, cs) \<Rightarrow>
             \<lparr>settled = Inr (), ui = s2\<lparr>errorMessage := Some (thrown_message err)\<rparr>,
              calls = cs\<rparr>)"
proof (cases "approve_steps_with rgp ua e")
  case (Pair outcome cs)
  then show ?thesis
    by (cases outcome)
      (simp_all add: onHandleApprove_with_def begin_approve_def finish_approve_hash
        finish_approve_thrown)
qed

lemmas flow_defs = onHandleApprove_def onHandleApprove_with_unfold approve_steps_def
  approve_steps_with_def requestGasParams_def message_includes_def
  approve_params_def write_request_of_def has_field_def truthy_def

lemmas example_defs = example_env_def example_public_def example_wallet_def example_owner_def
  example_token_def example_router_def stale_ui_def

lemmas split_all = option.splits sum.splits if_splits prod.splits bool.splits thrown.splits

text \<open>\<open>string_includes\<close> is the substring relation.\<close>

lemma includes_iff: "string_includes s t \<longleftrightarrow> (\<exists>ps ss. s = ps @ t @ ss)"
proof (induction s)
  case Nil
  then show ?case by auto
next
  case (Cons c cs)
  show ?case
  proof
    assume "string_includes (c # cs) t"
    then consider "prefix t (c # cs)" | "string_includes cs t" by auto
    then show "\<exists>ps ss. c # cs = ps @ t @ ss"
    proof cases
      case 1
      then obtain ss where "c # cs = t @ ss" by (auto simp: prefix_def)
      then have "c # cs = [] @ t @ ss" by simp
      then show ?thesis by blast
    next
      case 2
      with Cons.IH obtain ps ss where "cs = ps @ t @ ss" by blast
      then have "c # cs = (c # ps) @ t @ ss" by simp
      then show ?thesis by blast
    qed
  next
    assume "\<exists>ps ss. c # cs = ps @ t @ ss"
    then obtain ps ss where eq: "c # cs = ps @ t @ ss" by blast
    show "string_includes (c # cs) t"
    proof (cases ps)
      case Nil
      with eq have "prefix t (c # cs)" by (simp add: prefix_def)
      then show ?thesis by simp
    next
      case (Cons p ps')
      with eq have "cs = ps' @ t @ ss" by simp
      with Cons.IH have "string_includes cs t" by blast
      then show ?thesis by simp
    qed
  qed
qed

lemma maxAmount_value: "maxAmount = 2 ^ 256 - 1"
  by (simp add: maxAmount_def)

lemma UNISWAP_ADDRESSES_dom: "dom UNISWAP_ADDRESSES = {42161, 100, 1313161554}"
  by (simp add: UNISWAP_ADDRESSES_def dom_map_of_conv_image_fst)


section \<open>The approval amount\<close>

text \<open>
  C1. Every network call of the approval flow that carries the call descriptor (the gas
  estimation and the submitted transaction) has \<open>2^256 - 1\<close> as the second argument of
  \<open>approve\<close>, whatever the inputs and however the calls settle: no other allowance value
  is ever submitted.
\<close>

theorem approve_amount_is_max:
  "c \<in> set (calls (onHandleApprove ua e s)) \<Longrightarrow>
     (\<forall>p. c = EstimateContractGas p \<longrightarrow> snd (args p) = 2 ^ 256 - 1) \<and>
     (\<forall>r. c = WriteContract r \<longrightarrow> snd (args r) = 2 ^ 256 - 1)"
  by (auto simp: flow_defs maxAmount_value Let_def split: split_all)

theorem approve_amount_is_max_witness:
  "WriteContract example_request \<in>
     set (calls (onHandleApprove (Some example_router) example_env stale_ui)) \<and>
   args example_request = (example_router, 2 ^ 256 - 1)"
proof -
  have mem: "WriteContract example_request \<in>
     set (calls (onHandleApprove (Some example_router) example_env stale_ui))"
    by (simp add: flow_defs example_request_def example_defs)
  from approve_amount_is_max [OF mem] have "snd (args example_request) = 2 ^ 256 - 1"
    by simp
  moreover have "fst (args example_request) = example_router"
    by (simp add: example_request_def write_request_of_def approve_params_def)
  ultimately show ?thesis
    using mem by (simp add: prod_eq_iff)
qed

section \<open>The gas parameter resolver\<close>

text \<open>
  C2. When the fee estimation fails with an \<open>Error\<close> whose message contains "1559", the
  resolver makes exactly one legacy gas-price lookup after it and, with the price \<open>gp\<close>
  the lookup gives, returns \<open>{feesPerGas: {gasPrice: gp}, is1559: false}\<close> (a lookup
  that fails passes its own error on). When the message does not contain "1559", the
  same error comes out unchanged and the fee estimation is the only call made. No call
  is made twice.
\<close>

theorem resolver_fallback_on_1559:
  assumes "publicClient e = Some pc" and "estimateFeesPerGas pc = Inl (Error m)"
  shows "(string_includes m ''1559'' \<longrightarrow>
            snd (requestGasParams e) = [EstimateFeesPerGas, GetGasPrice] \<and>
            (\<forall>gp. getGasPrice pc = Inr gp \<longrightarrow>
               fst (requestGasParams e) =
                 Inr \<lparr>feesPerGas = FeeValuesLegacy gp, is1559 = False\<rparr>) \<and>
            (\<forall>err. getGasPrice pc = Inl err \<longrightarrow> fst (requestGasParams e) = Inl err)) \<and>
         (\<not> string_includes m ''1559'' \<longrightarrow>
            requestGasParams e = (Inl (Error m), [EstimateFeesPerGas])) \<and>
         distinct (snd (requestGasParams e))"
  using assms
  by (auto simp: requestGasParams_def message_includes_def split: sum.splits bool.splits)

theorem resolver_fallback_on_1559_witness:
  "requestGasParams (example_env\<lparr>publicClient := Some legacy_public\<rparr>) =
     (Inr \<lparr>feesPerGas = FeeValuesLegacy 90, is1559 = False\<rparr>,
      [EstimateFeesPerGas, GetGasPrice]) \<and>
   requestGasParams (example_env\<lparr>publicClient := Some failing_public\<rparr>) =
     (Inl (Error ''request timed out''), [EstimateFeesPerGas])"
  using resolver_fallback_on_1559
      [of "example_env\<lparr>publicClient := Some legacy_public\<rparr>" legacy_public
        "''Chain does not support EIP-1559 fees.''"]
    resolver_fallback_on_1559
      [of "example_env\<lparr>publicClient := Some failing_public\<rparr>" failing_public
        "''request timed out''"]
  by (simp add: legacy_public_def failing_public_def example_defs prod_eq_iff)

text \<open>
  C4. A chain without fee-market support shows in one of two ways: the fee estimation
  succeeds with a quote that has no \<open>maxFeePerGas\<close> field, or it fails with an \<open>Error\<close>
  whose message contains "1559" and the legacy lookup then gives a price. In both the
  resolver returns \<open>is1559 = false\<close> and a quote whose only field is \<open>gasPrice\<close>.
\<close>

theorem resolver_legacy_quote:
  assumes "publicClient e = Some pc"
    and "(\<exists>q. estimateFeesPerGas pc = Inr q \<and> \<not> has_field ''maxFeePerGas'' q) \<or>
         (\<exists>m g. estimateFeesPerGas pc = Inl (Error m) \<and> string_includes m ''1559'' \<and>
                getGasPrice pc = Inr g)"
  shows "\<exists>r. fst (requestGasParams e) = Inr r \<and> is1559 r = False \<and>
             fee_fields (feesPerGas r) = [''gasPrice'']"
  using assms(2)
proof
  assume "\<exists>q. estimateFeesPerGas pc = Inr q \<and> \<not> has_field ''maxFeePerGas'' q"
  then obtain q where q: "estimateFeesPerGas pc = Inr q" "\<not> has_field ''maxFeePerGas'' q"
    by blast
  from q(2) have "fee_fields q = [''gasPrice'']"
    by (cases q) (simp_all add: has_field_def)
  with assms(1) q show ?thesis
    by (simp add: requestGasParams_def)
next
  assume "\<exists>m g. estimateFeesPerGas pc = Inl (Error m) \<and> string_includes m ''1559'' \<and>
                getGasPrice pc = Inr g"
  then obtain m g where "estimateFeesPerGas pc = Inl (Error m)" "string_includes m ''1559''"
    "getGasPrice pc = Inr g" by blast
  with assms(1) show ?thesis
    by (simp add: requestGasParams_def message_includes_def)
qed

theorem resolver_legacy_quote_witness:
  "fst (requestGasParams (example_env\<lparr>publicClient := Some legacy_public\<rparr>)) =
     Inr \<lparr>feesPerGas = FeeValuesLegacy 90, is1559 = False\<rparr> \<and>
   fst (requestGasParams (example_env\<lparr>publicClient := Some legacy_quote_public\<rparr>)) =
     Inr \<lparr>feesPerGas = FeeValuesLegacy 77, is1559 = False\<rparr>"
  using resolver_legacy_quote
      [of "example_env\<lparr>publicClient := Some legacy_public\<rparr>" legacy_public]
    resolver_legacy_quote
      [of "example_env\<lparr>publicClient := Some legacy_quote_public\<rparr>" legacy_quote_public]
  by (simp add: requestGasParams_def message_includes_def has_field_def legacy_public_def
      legacy_quote_public_def example_defs)

text \<open>
  C5. When the fee estimation succeeds and its result has a \<open>maxFeePerGas\<close> field, the
  resolver returns that result with \<open>is1559 = true\<close>, after that one call; the quote has
  the fields \<open>maxFeePerGas\<close> and \<open>maxPriorityFeePerGas\<close> and no field \<open>gasPrice\<close>.
\<close>

theorem resolver_fee_market_quote:
  assumes "publicClient e = Some pc" and "estimateFeesPerGas pc = Inr q"
    and "has_field ''maxFeePerGas'' q"
  shows "\<exists>r. requestGasParams e = (Inr r, [EstimateFeesPerGas]) \<and> is1559 r = True \<and>
             feesPerGas r = q \<and>
             has_field ''maxFeePerGas'' (feesPerGas r) \<and>
             has_field ''maxPriorityFeePerGas'' (feesPerGas r) \<and>
             \<not> has_field ''gasPrice'' (feesPerGas r)"
  using assms by (cases q) (simp_all add: requestGasParams_def has_field_def)

theorem resolver_fee_market_quote_witness:
  "requestGasParams example_env =
     (Inr \<lparr>feesPerGas = FeeValuesEIP1559 100 2, is1559 = True\<rparr>, [EstimateFeesPerGas])"
  using resolver_fee_market_quote [of example_env example_public "FeeValuesEIP1559 100 2"]
  by (auto simp: has_field_def example_defs)

section \<open>The guards of the approval flow\<close>




text \<open>
  C6. With an account, a public client and a router address, an empty token address makes
  the flow fail with "Token is required", and the run makes no network call at all.
\<close>

theorem approve_missing_token:
  assumes "truthy (account_address e)" and "publicClient e \<noteq> None" and "truthy ua"
    and "tokenAddress e = []"
  shows "onHandleApprove ua e s = failed_run ''Token is required'' [] \<and>
         calls (onHandleApprove ua e s) = []"
  using assms by (auto simp: flow_defs failed_run_def split: option.splits)

theorem approve_missing_token_witness:
  "onHandleApprove (Some example_router) (example_env\<lparr>tokenAddress := []\<rparr>) stale_ui =
     \<lparr>settled = Inr (), ui = \<lparr>txHash = None, errorMessage = Some ''Token is required''\<rparr>,
      calls = []\<rparr>"
  using approve_missing_token
      [of "example_env\<lparr>tokenAddress := []\<rparr>" "Some example_router" stale_ui]
  by (simp add: truthy_def failed_run_def example_defs)

text \<open>
  C7. The router table has exactly the keys 42161, 100 and 1313161554; a client without a
  chain is looked up under 0, which is not among them. For a connected account whose
  active chain has no entry, rendering and clicking Approve ends with
  "Target contract is required" and no network call.
\<close>

theorem approve_unsupported_chain:
  assumes "truthy (account_address e)" and "publicClient e = Some pc"
    and "active_chain_key pc \<notin> dom UNISWAP_ADDRESSES"
  shows "App_approve e s = Inr (failed_run ''Target contract is required'' []) \<and>
         dom UNISWAP_ADDRESSES = {42161, 100, 1313161554} \<and>
         (client_chain pc = None \<longrightarrow> active_chain_key pc = 0) \<and>
         0 \<notin> dom UNISWAP_ADDRESSES"
proof -
  from assms(3) have "UNISWAP_ADDRESSES (active_chain_key pc) = None"
    by (simp add: dom_def)
  with assms(1,2) have "App_approve e s = Inr (failed_run ''Target contract is required'' [])"
    by (auto simp: App_approve_def uniswapAddress_def flow_defs failed_run_def
        split: option.splits)
  moreover have "client_chain pc = None \<longrightarrow> active_chain_key pc = 0"
    by (simp add: active_chain_key_def)
  moreover have "(0::int) \<notin> dom UNISWAP_ADDRESSES"
    by (simp add: UNISWAP_ADDRESSES_dom)
  ultimately show ?thesis
    by (simp add: UNISWAP_ADDRESSES_dom)
qed

theorem approve_unsupported_chain_witness:
  "App_approve (example_env\<lparr>publicClient := Some mainnet_public\<rparr>) stale_ui =
     Inr \<lparr>settled = Inr (),
          ui = \<lparr>txHash = None, errorMessage = Some ''Target contract is required''\<rparr>,
          calls = []\<rparr> \<and>
   App_approve (example_env\<lparr>publicClient := Some chainless_public\<rparr>) stale_ui =
     Inr \<lparr>settled = Inr (),
          ui = \<lparr>txHash = None, errorMessage = Some ''Target contract is required''\<rparr>,
          calls = []\<rparr>"
proof -
  have acct: "truthy (account_address (example_env\<lparr>publicClient := Some mainnet_public\<rparr>))"
    "truthy (account_address (example_env\<lparr>publicClient := Some chainless_public\<rparr>))"
    by (simp_all add: truthy_def example_env_def example_owner_def)
  have key1: "active_chain_key mainnet_public \<notin> dom UNISWAP_ADDRESSES"
    by (simp add: UNISWAP_ADDRESSES_dom active_chain_key_def mainnet_public_def
        example_public_def)
  have key0: "active_chain_key chainless_public \<notin> dom UNISWAP_ADDRESSES"
    by (simp add: UNISWAP_ADDRESSES_dom active_chain_key_def chainless_public_def
        example_public_def)
  show ?thesis
    using approve_unsupported_chain [OF acct(1) _ key1, of stale_ui]
      approve_unsupported_chain [OF acct(2) _ key0, of stale_ui]
    by (simp add: failed_run_def)
qed

section \<open>How an invocation ends\<close>

text \<open>
  C8, as stated, fails. Two invocations can overlap. Here the first is still waiting
  for the network when the second click comes, the token field having been edited in
  between; the first then succeeds and the second fails at the gas estimation. After the second invocation has
  completed, the hash of the first is still shown next to the error of the second: the
  failure did not clear the hash, and both fields are set.
\<close>

theorem approve_overlap_counterexample:
  "overlapping_clicks
     (Some example_router) (example_env\<lparr>publicClient := Some picky_public\<rparr>)
     (Some example_router)
     (example_env\<lparr>publicClient := Some picky_public, tokenAddress := other_token\<rparr>)
     stale_ui =
   Some \<lparr>txHash = Some ''0xabc'', errorMessage = Some ''execution reverted''\<rparr>"
  by (simp add: overlapping_clicks_def begin_approve_def finish_approve_hash
      finish_approve_thrown approve_steps_def approve_steps_with_def requestGasParams_def
      approve_params_def write_request_of_def has_field_def picky_public_def other_token_def
      example_defs)

text \<open>
  C8, amended. An invocation always settles normally: nothing is thrown again. For an
  invocation that no other invocation overlaps, and from any UI state: a failure at any
  step (a guard, the gas-limit estimation, the missing wallet client, the gas quote, the
  submission) leaves the hash cleared and shows the message of the thrown \<open>Error\<close>, or
  "Unknown error" for any other thrown value; success records the hash returned by the
  wallet and leaves the error cleared. So at most one of the two fields is set
  afterwards.
\<close>

theorem approve_settles_with_one_result:
  "(let run = onHandleApprove ua e s;
        shown = (\<lambda>err. \<lparr>txHash = None,
                        errorMessage = Some (case err of Error m \<Rightarrow> m
                                             | Nullish \<Rightarrow> ''Unknown error''
                                             | NonError v \<Rightarrow> ''Unknown error'')\<rparr>)
    in settled run = Inr () \<and>
       (txHash (ui run) = None \<or> errorMessage (ui run) = None) \<and>
       (\<forall>pc. publicClient e = Some pc \<longrightarrow>
          (\<not> truthy (account_address e) \<longrightarrow> ui run = shown (Error ''Wallet not Connected'')) \<and>
          (truthy (account_address e) \<and> \<not> truthy ua \<longrightarrow>
             ui run = shown (Error ''Target contract is required'')) \<and>
          (truthy (account_address e) \<and> truthy ua \<and> tokenAddress e = [] \<longrightarrow>
             ui run = shown (Error ''Token is required'')) \<and>
          (\<forall>addr router.
             account_address e = Some addr \<and> addr \<noteq> [] \<and> ua = Some router \<and> router \<noteq> [] \<and>
             tokenAddress e \<noteq> [] \<longrightarrow>
             (let params = approve_params addr (tokenAddress e) router
              in (\<forall>err. estimateContractGas pc params = Inl err \<longrightarrow> ui run = shown err) \<and>
                 (\<forall>gasLimit. estimateContractGas pc params = Inr gasLimit \<longrightarrow>
                    (walletClient e = None \<longrightarrow>
                       ui run = shown (Error ''Wallet client not available'')) \<and>
                    (\<forall>wc. walletClient e = Some wc \<longrightarrow>
                       (\<forall>err. fst (requestGasParams e) = Inl err \<longrightarrow> ui run = shown err) \<and>
                       (\<forall>gp. fst (requestGasParams e) = Inr gp \<longrightarrow>
                          (let req = write_request_of params (feesPerGas gp) gasLimit
                           in (\<forall>err. writeContract wc req = Inl err \<longrightarrow> ui run = shown err) \<and>
                              (\<forall>hash. writeContract wc req = Inr hash \<longrightarrow>
                                 ui run = \<lparr>txHash = Some hash, errorMessage = None\<rparr>)))))))))"
proof -
  have settle: "settled (onHandleApprove ua e s) = Inr ()"
    by (simp add: onHandleApprove_def onHandleApprove_with_unfold Let_def
        split: prod.splits sum.splits)
  have one: "txHash (ui (onHandleApprove ua e s)) = None \<or>
      errorMessage (ui (onHandleApprove ua e s)) = None"
    by (simp add: onHandleApprove_def onHandleApprove_with_unfold Let_def
        split: prod.splits sum.splits)
  have msg: "thrown_message err =
      (case err of Error m \<Rightarrow> m | Nullish \<Rightarrow> ''Unknown error'' | NonError v \<Rightarrow> ''Unknown error'')"
    for err by (cases err) simp_all
  have steps: "ui (onHandleApprove ua' e s) =
      (case fst (approve_steps ua' e) of
         Inr hash \<Rightarrow> \<lparr>txHash = Some hash, errorMessage = None\<rparr>
       | Inl err \<Rightarrow> \<lparr>txHash = None, errorMessage = Some (thrown_message err)\<rparr>)" for ua'
    by (simp add: onHandleApprove_def onHandleApprove_with_unfold approve_steps_def Let_def
        split: prod.splits sum.splits)
  show ?thesis
    unfolding Let_def
    apply (intro conjI allI impI)
    subgoal by (rule settle)
    subgoal by (rule one)
    subgoal by (auto simp: steps approve_steps_def approve_steps_with_def truthy_def
          split: option.splits)
    subgoal by (auto simp: steps approve_steps_def approve_steps_with_def truthy_def
          split: option.splits)
    subgoal by (auto simp: steps approve_steps_def approve_steps_with_def truthy_def
          split: option.splits)
    subgoal by (simp add: steps approve_steps_def approve_steps_with_def msg)
    subgoal by (simp add: steps approve_steps_def approve_steps_with_def)
    subgoal for pc addr router gasLimit wc err
      by (cases "requestGasParams e")
        (simp add: steps approve_steps_def approve_steps_with_def msg Let_def)
    subgoal for pc addr router gasLimit wc gp err
      by (cases "requestGasParams e")
        (simp add: steps approve_steps_def approve_steps_with_def msg Let_def)
    subgoal for pc addr router gasLimit wc gp hash
      by (cases "requestGasParams e")
        (simp add: steps approve_steps_def approve_steps_with_def Let_def)
    done
qed


theorem approve_settles_with_one_result_witness:
  "ui (onHandleApprove (Some example_router) example_env stale_ui) =
     \<lparr>txHash = Some ''0xabc'', errorMessage = None\<rparr> \<and>
   ui (onHandleApprove (Some example_router)
       (example_env\<lparr>walletClient := Some rejecting_wallet\<rparr>) stale_ui) =
     \<lparr>txHash = None, errorMessage = Some ''User rejected the request.''\<rparr> \<and>
   ui (onHandleApprove (Some example_router)
       (example_env\<lparr>walletClient := Some odd_wallet\<rparr>) stale_ui) =
     \<lparr>txHash = None, errorMessage = Some ''Unknown error''\<rparr> \<and>
   ui (onHandleApprove (Some example_router)
       (example_env\<lparr>publicClient := Some failing_public\<rparr>) stale_ui) =
     \<lparr>txHash = None, errorMessage = Some ''request timed out''\<rparr> \<and>
   ui (onHandleApprove (Some example_router)
       (example_env\<lparr>publicClient := Some reverting_public\<rparr>) stale_ui) =
     \<lparr>txHash = None, errorMessage = Some ''execution reverted''\<rparr> \<and>
   ui (onHandleApprove (Some example_router)
       (example_env\<lparr>account_address := None\<rparr>) stale_ui) =
     \<lparr>txHash = None, errorMessage = Some ''Wallet not Connected''\<rparr>"
  using approve_settles_with_one_result [of "Some example_router" example_env stale_ui]
    approve_settles_with_one_result
      [of "Some example_router" "example_env\<lparr>walletClient := Some rejecting_wallet\<rparr>" stale_ui]
    approve_settles_with_one_result
      [of "Some example_router" "example_env\<lparr>walletClient := Some odd_wallet\<rparr>" stale_ui]
    approve_settles_with_one_result
      [of "Some example_router" "example_env\<lparr>publicClient := Some failing_public\<rparr>" stale_ui]
    approve_settles_with_one_result
      [of "Some example_router" "example_env\<lparr>publicClient := Some reverting_public\<rparr>" stale_ui]
    approve_settles_with_one_result
      [of "Some example_router" "example_env\<lparr>account_address := None\<rparr>" stale_ui]
  by (simp add: Let_def truthy_def requestGasParams_def message_includes_def has_field_def
      rejecting_wallet_def odd_wallet_def failing_public_def reverting_public_def
      example_env_def example_public_def example_wallet_def example_owner_def
      example_token_def example_router_def)

section \<open>The signing client\<close>

text \<open>
  C9, as stated, fails on the text of the message: the flow raises
  "Wallet client not available", with a capital W, not "wallet client not available".
\<close>

theorem approve_wallet_message_counterexample:
  "errorMessage (ui (onHandleApprove (Some example_router)
       (example_env\<lparr>walletClient := None\<rparr>) stale_ui)) \<noteq> Some ''wallet client not available''"
  by (simp add: flow_defs example_defs)

text \<open>
  C9, amended. With the four preconditions met and no wallet client, a successful
  gas-limit estimation is followed by the failure "Wallet client not available", and the
  estimation is the only network call of the run: no gas quote is requested and nothing
  is submitted. The test comes after the estimation: when the estimation itself fails,
  its error is the one shown.
\<close>

theorem approve_missing_wallet:
  assumes "account_address e = Some addr" and "addr \<noteq> []" and "publicClient e = Some pc"
    and "ua = Some router" and "router \<noteq> []" and "tokenAddress e \<noteq> []"
    and "walletClient e = None"
  shows "(\<forall>g. estimateContractGas pc (approve_params addr (tokenAddress e) router) = Inr g \<longrightarrow>
            onHandleApprove ua e s =
              failed_run ''Wallet client not available''
                [EstimateContractGas (approve_params addr (tokenAddress e) router)]) \<and>
         (\<forall>err. estimateContractGas pc (approve_params addr (tokenAddress e) router) = Inl err \<longrightarrow>
            onHandleApprove ua e s =
              failed_run (thrown_message err)
                [EstimateContractGas (approve_params addr (tokenAddress e) router)])"
  using assms
  by (simp add: onHandleApprove_def onHandleApprove_with_unfold approve_steps_with_def
      failed_run_def)

theorem approve_missing_wallet_witness:
  "onHandleApprove (Some example_router) (example_env\<lparr>walletClient := None\<rparr>) stale_ui =
     failed_run ''Wallet client not available''
       [EstimateContractGas (approve_params example_owner example_token example_router)] \<and>
   onHandleApprove (Some example_router)
       (example_env\<lparr>publicClient := Some reverting_public, walletClient := None\<rparr>) stale_ui =
     failed_run ''execution reverted''
       [EstimateContractGas (approve_params example_owner example_token example_router)]"
  using approve_missing_wallet
      [of "example_env\<lparr>walletClient := None\<rparr>" example_owner example_public
        "Some example_router" example_router stale_ui]
    approve_missing_wallet
      [of "example_env\<lparr>publicClient := Some reverting_public, walletClient := None\<rparr>"
        example_owner reverting_public "Some example_router" example_router stale_ui]
  by (simp add: reverting_public_def example_env_def example_public_def
      example_owner_def example_token_def example_router_def)

section \<open>The resolver's own guard\<close>

text \<open>
  C10. Inside the approval flow the branch of the resolver that raises
  "Public client is required" is never taken: the flow calls the resolver only after its
  first guard has found a public client. Hence what the resolver does without a public
  client has no effect on any run of the flow; any resolver that agrees with
  \<open>requestGasParams\<close> wherever a public client is present gives the same runs.
\<close>

theorem resolver_guard_unreachable:
  assumes "\<forall>e'. publicClient e' \<noteq> None \<longrightarrow> rgp e' = requestGasParams e'"
  shows "onHandleApprove_with rgp ua e s = onHandleApprove ua e s"
proof -
  have "approve_steps_with rgp ua e = approve_steps_with requestGasParams ua e"
  proof (cases "publicClient e")
    case None
    then show ?thesis
      by (simp add: approve_steps_with_def split: option.splits)
  next
    case (Some pc)
    with assms have same: "rgp e = requestGasParams e" by simp
    show ?thesis
      unfolding approve_steps_with_def same by (rule refl)
  qed
  then show ?thesis
    by (simp add: onHandleApprove_def onHandleApprove_with_unfold)
qed

theorem resolver_guard_unreachable_witness:
  "onHandleApprove_with unguarded_resolver (Some example_router) example_env stale_ui =
     onHandleApprove (Some example_router) example_env stale_ui \<and>
   onHandleApprove_with unguarded_resolver (Some example_router)
       (example_env\<lparr>publicClient := None\<rparr>) stale_ui =
     failed_run ''Wallet not Connected'' []"
proof -
  have agree: "\<forall>e'. publicClient e' \<noteq> None \<longrightarrow> unguarded_resolver e' = requestGasParams e'"
    by (simp add: unguarded_resolver_def)
  have "onHandleApprove (Some example_router) (example_env\<lparr>publicClient := None\<rparr>) stale_ui =
      failed_run ''Wallet not Connected'' []"
    by (simp add: onHandleApprove_def onHandleApprove_with_unfold approve_steps_with_def
        failed_run_def example_env_def example_owner_def stale_ui_def)
  with resolver_guard_unreachable [OF agree] show ?thesis
    by simp
qed

end
